theory Spec2Isabelle
  imports Main "HOL-Library.Word"
begin

unbundle bit_operations_syntax

section \<open>ShiftRegLCD: an HD44780 display behind an 8-bit shift register\<close>

text \<open>
  A shallow embedding of \<^verbatim>\<open>src/lib/ShiftRegLCD/ShiftRegLCD.cpp\<close>. Every \<^verbatim>\<open>uint8_t\<close>
  is an \<open>8 word\<close>, the object's fields are a record, and the calls of the platform
  (\<^verbatim>\<open>pinMode\<close>, \<^verbatim>\<open>digitalWrite\<close>, \<^verbatim>\<open>shiftOut\<close>, \<^verbatim>\<open>delayMicroseconds\<close>) are appended to
  a log carried in the state, in the order in which the code makes them.
\<close>

type_synonym byte = "8 word"

subsection \<open>Constants of the header\<close>

text \<open>
  The macros \<^verbatim>\<open>LCD_...\<close> and \<^verbatim>\<open>TWO_WIRE\<close> are declared in \<^verbatim>\<open>ShiftRegLCD.h\<close>, which is
  not among the sources. The functions below take them as a parameter \<open>c\<close>, so that
  what is proved for every \<open>c\<close> holds whatever the header says. The code assigns them
  to \<^verbatim>\<open>uint8_t\<close> fields and parameters, hence their type.
\<close>

record lcd_consts =
  LCD_CLEARDISPLAY :: byte
  LCD_RETURNHOME :: byte
  LCD_ENTRYMODESET :: byte
  LCD_DISPLAYCONTROL :: byte
  LCD_CURSORSHIFT :: byte
  LCD_FUNCTIONSET :: byte
  LCD_SETCGRAMADDR :: byte
  LCD_SETDDRAMADDR :: byte
  LCD_ENTRYLEFT :: byte
  LCD_ENTRYSHIFTINCREMENT :: byte
  LCD_ENTRYSHIFTDECREMENT :: byte
  LCD_DISPLAYON :: byte
  LCD_CURSORON :: byte
  LCD_CURSOROFF :: byte
  LCD_BLINKON :: byte
  LCD_BLINKOFF :: byte
  LCD_DISPLAYMOVE :: byte
  LCD_MOVERIGHT :: byte
  LCD_MOVELEFT :: byte
  LCD_8BITMODE :: byte
  LCD_4BITMODE :: byte
  LCD_2LINE :: byte
  LCD_1LINE :: byte
  LCD_5x10DOTS :: byte
  LCD_5x8DOTS :: byte
  TWO_WIRE :: byte

text \<open>
  Modelled from the spec: the values of the missing header \<^verbatim>\<open>ShiftRegLCD.h\<close>. The spec
  names the controller (HD44780-compatible) and the commands, not the numbers; the
  numbers are the bits of that controller's instruction set, which the bytes sent by the
  code must carry to be the commands the spec describes: function set is \<open>0x20\<close> with
  the interface width in bit 4, the number of lines in bit 3 and the font in bit 2;
  display control is \<open>0x08\<close> with display, cursor and blink in bits 2, 1 and 0; entry
  mode is \<open>0x04\<close> with direction and shift in bits 1 and 0. They are used only where a
  concrete input is evaluated.
\<close>

definition hd44780 :: lcd_consts where
  "hd44780 = \<lparr>
     LCD_CLEARDISPLAY = 0x01, LCD_RETURNHOME = 0x02, LCD_ENTRYMODESET = 0x04,
     LCD_DISPLAYCONTROL = 0x08, LCD_CURSORSHIFT = 0x10, LCD_FUNCTIONSET = 0x20,
     LCD_SETCGRAMADDR = 0x40, LCD_SETDDRAMADDR = 0x80,
     LCD_ENTRYLEFT = 0x02, LCD_ENTRYSHIFTINCREMENT = 0x01, LCD_ENTRYSHIFTDECREMENT = 0x00,
     LCD_DISPLAYON = 0x04, LCD_CURSORON = 0x02, LCD_CURSOROFF = 0x00,
     LCD_BLINKON = 0x01, LCD_BLINKOFF = 0x00,
     LCD_DISPLAYMOVE = 0x08, LCD_MOVERIGHT = 0x04, LCD_MOVELEFT = 0x00,
     LCD_8BITMODE = 0x10, LCD_4BITMODE = 0x00, LCD_2LINE = 0x08, LCD_1LINE = 0x00,
     LCD_5x10DOTS = 0x04, LCD_5x8DOTS = 0x00,
     TWO_WIRE = 204 \<rparr>"

text \<open>
  Modelled from the spec: \<^verbatim>\<open>SR_RS_BIT\<close> and \<^verbatim>\<open>SR_EN_BIT\<close> are declared in the missing
  header too. The spec's shift-register frame has bit 7 as the enable-gate bit and bit 2
  as the register-select bit, as has the connection table at the head of the source file.
\<close>

definition SR_RS_BIT :: byte where
  "SR_RS_BIT = 0x04"

definition SR_EN_BIT :: byte where
  "SR_EN_BIT = 0x80"

text \<open>The pin levels of \<^verbatim>\<open>Arduino.h\<close>.\<close>

definition LOW :: byte where
  "LOW = 0"

definition HIGH :: byte where
  "HIGH = 1"

subsection \<open>Platform calls and driver state\<close>

text \<open>
  \<open>PinMode p\<close> is \<^verbatim>\<open>pinMode(p, OUTPUT)\<close> and \<open>ShiftOut d k v\<close> is
  \<^verbatim>\<open>shiftOut(d, k, MSBFIRST, v)\<close>: the code makes no other kind of these calls.
\<close>

datatype hw_event =
  PinMode byte
  | DigitalWrite byte byte
  | ShiftOut byte byte byte
  | DelayMicroseconds nat

record lcd_state =
  srdata_pin :: byte
  srclock_pin :: byte
  enable_pin :: byte
  two_wire :: byte
  numlines :: byte
  displayfunction :: byte
  displaycontrol :: byte
  displaymode :: byte
  hw :: "hw_event list"

definition pinMode :: "byte \<Rightarrow> lcd_state \<Rightarrow> lcd_state" where
  "pinMode p s = s\<lparr>hw := hw s @ [PinMode p]\<rparr>"

definition digitalWrite :: "byte \<Rightarrow> byte \<Rightarrow> lcd_state \<Rightarrow> lcd_state" where
  "digitalWrite p l s = s\<lparr>hw := hw s @ [DigitalWrite p l]\<rparr>"

definition shiftOut :: "byte \<Rightarrow> byte \<Rightarrow> byte \<Rightarrow> lcd_state \<Rightarrow> lcd_state" where
  "shiftOut d k v s = s\<lparr>hw := hw s @ [ShiftOut d k v]\<rparr>"

definition delayMicroseconds :: "nat \<Rightarrow> lcd_state \<Rightarrow> lcd_state" where
  "delayMicroseconds n s = s\<lparr>hw := hw s @ [DelayMicroseconds n]\<rparr>"

subsection \<open>Framing: \<^verbatim>\<open>send\<close> and \<^verbatim>\<open>init4bits\<close>\<close>

text \<open>\<^verbatim>\<open>if ( _two_wire ) shiftOut ( _srdata_pin, _srclock_pin, MSBFIRST, 0x00 );\<close>\<close>

definition clear_shiftregister :: "lcd_state \<Rightarrow> lcd_state" where
  "clear_shiftregister s =
     (if two_wire s \<noteq> 0 then shiftOut (srdata_pin s) (srclock_pin s) 0x00 s else s)"

text \<open>The two frames of \<^verbatim>\<open>send\<close>, after \<^verbatim>\<open>mode = mode ? SR_RS_BIT : 0\<close>.\<close>

definition send_val1 :: "byte \<Rightarrow> byte \<Rightarrow> byte" where
  "send_val1 value mode =
     (if mode \<noteq> 0 then SR_RS_BIT else 0) OR SR_EN_BIT OR (drop_bit 1 value AND 0x78)"

definition send_val2 :: "byte \<Rightarrow> byte \<Rightarrow> byte" where
  "send_val2 value mode =
     (if mode \<noteq> 0 then SR_RS_BIT else 0) OR SR_EN_BIT OR (push_bit 3 value AND 0x78)"

definition send :: "byte \<Rightarrow> byte \<Rightarrow> lcd_state \<Rightarrow> lcd_state" where
  "send value mode s =
     (let s = clear_shiftregister s;
          s = digitalWrite (enable_pin s) LOW s;
          val1 = send_val1 value mode;
          val2 = send_val2 value mode;
          s = shiftOut (srdata_pin s) (srclock_pin s) val1 s;
          s = digitalWrite (enable_pin s) HIGH s;
          s = delayMicroseconds 1 s;
          s = digitalWrite (enable_pin s) LOW s;
          s = clear_shiftregister s;
          s = shiftOut (srdata_pin s) (srclock_pin s) val2 s;
          s = digitalWrite (enable_pin s) HIGH s;
          s = delayMicroseconds 1 s;
          s = digitalWrite (enable_pin s) LOW s
      in delayMicroseconds 40 s)"

definition init4bits_val1 :: "byte \<Rightarrow> byte" where
  "init4bits_val1 value = SR_EN_BIT OR (drop_bit 1 value AND 0x78)"

definition init4bits :: "byte \<Rightarrow> lcd_state \<Rightarrow> lcd_state" where
  "init4bits value s =
     (let s = clear_shiftregister s;
          s = digitalWrite (enable_pin s) LOW s;
          val1 = init4bits_val1 value;
          s = shiftOut (srdata_pin s) (srclock_pin s) val1 s;
          s = digitalWrite (enable_pin s) HIGH s;
          s = delayMicroseconds 1 s;
          s = digitalWrite (enable_pin s) LOW s
      in delayMicroseconds 40 s)"

definition command :: "byte \<Rightarrow> lcd_state \<Rightarrow> lcd_state" where
  "command value s = send value LOW s"

text \<open>
  \<^verbatim>\<open>write\<close> (the name is a keyword of the proof language, hence the suffix) returns a
  \<^verbatim>\<open>size_t\<close> beside the new state.
\<close>

definition write_lcd :: "byte \<Rightarrow> lcd_state \<Rightarrow> nat \<times> lcd_state" where
  "write_lcd value s = (0, send value HIGH s)"

subsection \<open>Initialisation\<close>

text \<open>
  \<^verbatim>\<open>init\<close> assigns every field of the object before it reads it; the state it starts
  from is the object's memory before construction, with the log of the calls made so far.
\<close>

definition clear :: "lcd_consts \<Rightarrow> lcd_state \<Rightarrow> lcd_state" where
  "clear c s = (let s = command (LCD_CLEARDISPLAY c) s in delayMicroseconds 2000 s)"

definition home :: "lcd_consts \<Rightarrow> lcd_state \<Rightarrow> lcd_state" where
  "home c s = (let s = command (LCD_RETURNHOME c) s in delayMicroseconds 2000 s)"

definition display :: "lcd_consts \<Rightarrow> lcd_state \<Rightarrow> lcd_state" where
  "display c s =
     (let s = s\<lparr>displaycontrol := displaycontrol s OR LCD_DISPLAYON c\<rparr>
      in command (LCD_DISPLAYCONTROL c OR displaycontrol s) s)"

definition init ::
  "lcd_consts \<Rightarrow> byte \<Rightarrow> byte \<Rightarrow> byte \<Rightarrow> byte \<Rightarrow> byte \<Rightarrow> lcd_state \<Rightarrow> lcd_state" where
  "init c srdata srclock enable lines font s =
     (let s = s\<lparr>two_wire := 0\<rparr>;
          s = s\<lparr>srdata_pin := srdata, srclock_pin := srclock, enable_pin := enable\<rparr>;
          s = (if enable = TWO_WIRE c
               then s\<lparr>enable_pin := srdata_pin s, two_wire := 1\<rparr> else s);
          s = pinMode (srclock_pin s) s;
          s = pinMode (srdata_pin s) s;
          s = pinMode (enable_pin s) s;
          s = (if lines > 1 then s\<lparr>numlines := LCD_2LINE c\<rparr>
               else s\<lparr>numlines := LCD_1LINE c\<rparr>);
          s = s\<lparr>displayfunction := LCD_4BITMODE c OR numlines s\<rparr>;
          s = (if font \<noteq> 0
               then s\<lparr>displayfunction := displayfunction s OR LCD_5x10DOTS c\<rparr>
               else s\<lparr>displayfunction := displayfunction s OR LCD_5x8DOTS c\<rparr>);
          s = delayMicroseconds 50000 s;
          s = init4bits (LCD_FUNCTIONSET c OR LCD_8BITMODE c) s;
          s = delayMicroseconds 4500 s;
          s = init4bits (LCD_FUNCTIONSET c OR LCD_8BITMODE c) s;
          s = delayMicroseconds 150 s;
          s = init4bits (LCD_FUNCTIONSET c OR LCD_8BITMODE c) s;
          s = init4bits (LCD_FUNCTIONSET c OR LCD_4BITMODE c) s;
          s = command (LCD_FUNCTIONSET c OR displayfunction s) s;
          s = s\<lparr>displaycontrol := LCD_DISPLAYON c OR LCD_CURSOROFF c OR LCD_BLINKOFF c\<rparr>;
          s = display c s;
          s = clear c s;
          s = s\<lparr>displaymode := LCD_ENTRYLEFT c OR LCD_ENTRYSHIFTDECREMENT c\<rparr>;
          s = command (LCD_ENTRYMODESET c OR displaymode s) s
      in home c s)"

subsection \<open>High-level commands\<close>

text \<open>
  A read beyond the end of a C array is undefined behaviour; the model stops there with
  the index that was read.
\<close>

datatype lcd_error = OutOfBounds nat

definition row_offsets :: "byte list" where
  "row_offsets = [0x00, 0x40, 0x14, 0x54]"

text \<open>The row that \<^verbatim>\<open>setCursor\<close> subscripts \<^verbatim>\<open>row_offsets\<close> with.\<close>

definition setCursor_row :: "byte \<Rightarrow> lcd_state \<Rightarrow> byte" where
  "setCursor_row row s = (if row > numlines s then numlines s - 1 else row)"

definition setCursor ::
  "lcd_consts \<Rightarrow> byte \<Rightarrow> byte \<Rightarrow> lcd_state \<Rightarrow> lcd_error + lcd_state" where
  "setCursor c col row s =
     (let row = setCursor_row row s
      in if unat row < length row_offsets
         then Inr (command (LCD_SETDDRAMADDR c OR (col + row_offsets ! unat row)) s)
         else Inl (OutOfBounds (unat row)))"

definition noDisplay :: "lcd_consts \<Rightarrow> lcd_state \<Rightarrow> lcd_state" where
  "noDisplay c s =
     (let s = s\<lparr>displaycontrol := displaycontrol s AND NOT (LCD_DISPLAYON c)\<rparr>
      in command (LCD_DISPLAYCONTROL c OR displaycontrol s) s)"

definition noCursor :: "lcd_consts \<Rightarrow> lcd_state \<Rightarrow> lcd_state" where
  "noCursor c s =
     (let s = s\<lparr>displaycontrol := displaycontrol s AND NOT (LCD_CURSORON c)\<rparr>
      in command (LCD_DISPLAYCONTROL c OR displaycontrol s) s)"

definition cursor :: "lcd_consts \<Rightarrow> lcd_state \<Rightarrow> lcd_state" where
  "cursor c s =
     (let s = s\<lparr>displaycontrol := displaycontrol s OR LCD_CURSORON c\<rparr>
      in command (LCD_DISPLAYCONTROL c OR displaycontrol s) s)"

definition noBlink :: "lcd_consts \<Rightarrow> lcd_state \<Rightarrow> lcd_state" where
  "noBlink c s =
     (let s = s\<lparr>displaycontrol := displaycontrol s AND NOT (LCD_BLINKON c)\<rparr>
      in command (LCD_DISPLAYCONTROL c OR displaycontrol s) s)"

definition blink :: "lcd_consts \<Rightarrow> lcd_state \<Rightarrow> lcd_state" where
  "blink c s =
     (let s = s\<lparr>displaycontrol := displaycontrol s OR LCD_BLINKON c\<rparr>
      in command (LCD_DISPLAYCONTROL c OR displaycontrol s) s)"

definition scrollDisplayLeft :: "lcd_consts \<Rightarrow> lcd_state \<Rightarrow> lcd_state" where
  "scrollDisplayLeft c s =
     command (LCD_CURSORSHIFT c OR LCD_DISPLAYMOVE c OR LCD_MOVELEFT c) s"

definition scrollDisplayRight :: "lcd_consts \<Rightarrow> lcd_state \<Rightarrow> lcd_state" where
  "scrollDisplayRight c s =
     command (LCD_CURSORSHIFT c OR LCD_DISPLAYMOVE c OR LCD_MOVERIGHT c) s"

definition shiftLeft :: "lcd_consts \<Rightarrow> lcd_state \<Rightarrow> lcd_state" where
  "shiftLeft c s =
     (let s = s\<lparr>displaymode := displaymode s OR LCD_ENTRYLEFT c\<rparr>
      in command (LCD_ENTRYMODESET c OR displaymode s) s)"

definition shiftRight :: "lcd_consts \<Rightarrow> lcd_state \<Rightarrow> lcd_state" where
  "shiftRight c s =
     (let s = s\<lparr>displaymode := displaymode s AND NOT (LCD_ENTRYLEFT c)\<rparr>
      in command (LCD_ENTRYMODESET c OR displaymode s) s)"

definition shiftIncrement :: "lcd_consts \<Rightarrow> lcd_state \<Rightarrow> lcd_state" where
  "shiftIncrement c s =
     (let s = s\<lparr>displaymode := displaymode s OR LCD_ENTRYSHIFTINCREMENT c\<rparr>
      in command (LCD_ENTRYMODESET c OR displaymode s) s)"

definition shiftDecrement :: "lcd_consts \<Rightarrow> lcd_state \<Rightarrow> lcd_state" where
  "shiftDecrement c s =
     (let s = s\<lparr>displaymode := displaymode s AND NOT (LCD_ENTRYSHIFTINCREMENT c)\<rparr>
      in command (LCD_ENTRYMODESET c OR displaymode s) s)"

text \<open>
  The loop \<^verbatim>\<open>for (int i=0; i<8; i++) write(charmap[i]);\<close> of \<^verbatim>\<open>createChar\<close>, from
  index \<open>i\<close> on. \<^verbatim>\<open>charmap\<close> is the caller's array; the value \<^verbatim>\<open>write\<close> returns is dropped.
\<close>

function createChar_loop :: "nat \<Rightarrow> byte list \<Rightarrow> lcd_state \<Rightarrow> lcd_error + lcd_state" where
  "createChar_loop i charmap s =
     (if i < 8
      then (if i < length charmap
            then createChar_loop (i + 1) charmap (snd (write_lcd (charmap ! i) s))
            else Inl (OutOfBounds i))
      else Inr s)"
  by pat_completeness auto
termination
  by (relation "measure (\<lambda>(i, charmap, s). 8 - i)") auto

declare createChar_loop.simps [simp del]

definition createChar ::
  "lcd_consts \<Rightarrow> byte \<Rightarrow> byte list \<Rightarrow> lcd_state \<Rightarrow> lcd_error + lcd_state" where
  "createChar c location charmap s =
     (let location = location AND 0x7;
          s = command (LCD_SETCGRAMADDR c OR push_bit 3 location) s
      in case createChar_loop 0 charmap s of
           Inl e \<Rightarrow> Inl e
         | Inr s \<Rightarrow> Inr (command (LCD_SETDDRAMADDR c) s))"

subsection \<open>What the hardware sees\<close>

text \<open>The platform calls made on the way from state \<open>s\<close> to state \<open>s'\<close>.\<close>

definition emitted :: "lcd_state \<Rightarrow> lcd_state \<Rightarrow> hw_event list" where
  "emitted s s' = drop (length (hw s)) (hw s')"

text \<open>The bytes shifted into the register, in order.\<close>

fun shifted :: "hw_event list \<Rightarrow> byte list" where
  "shifted [] = []"
| "shifted (ShiftOut d k v # es) = v # shifted es"
| "shifted (e # es) = shifted es"

text \<open>
  The frames strobed into the controller: the content of the shift register (\<open>reg\<close>
  before the first event) at each write of a level other than \<^verbatim>\<open>LOW\<close> to the enable
  pin \<open>en\<close>.
\<close>

fun latched :: "byte \<Rightarrow> byte \<Rightarrow> hw_event list \<Rightarrow> byte list" where
  "latched en reg [] = []"
| "latched en reg (ShiftOut d k v # es) = latched en v es"
| "latched en reg (DigitalWrite p l # es) =
     (if p = en \<and> l \<noteq> LOW then reg # latched en reg es else latched en reg es)"
| "latched en reg (e # es) = latched en reg es"

text \<open>The four data lines of a frame (bits 6 to 3), and a byte from two such nibbles.\<close>

definition frame_nibble :: "byte \<Rightarrow> byte" where
  "frame_nibble f = drop_bit 3 f AND 0x0F"

definition join_nibbles :: "byte \<Rightarrow> byte \<Rightarrow> byte" where
  "join_nibbles hi lo = push_bit 4 hi OR lo"

text \<open>
  The level the calls \<open>es\<close> leave on pin \<open>p\<close>, from level \<open>l\<close> before them.
  \<^verbatim>\<open>shiftOut\<close> is a service of the platform: it serialises the byte most significant bit
  first, setting the data pin before each clock pulse, so it leaves the clock pin low and
  the data pin at bit 0 of the byte.
\<close>

fun pin_level :: "byte \<Rightarrow> byte \<Rightarrow> hw_event list \<Rightarrow> byte" where
  "pin_level p l [] = l"
| "pin_level p l (DigitalWrite q v # es) = pin_level p (if q = p then v else l) es"
| "pin_level p l (ShiftOut d k v # es) =
     pin_level p (if k = p then LOW else if d = p then v AND 1 else l) es"
| "pin_level p l (e # es) = pin_level p l es"

text \<open>The levels written to pin \<open>p\<close> by \<^verbatim>\<open>digitalWrite\<close>, in order.\<close>

fun digital_writes :: "byte \<Rightarrow> hw_event list \<Rightarrow> byte list" where
  "digital_writes p [] = []"
| "digital_writes p (DigitalWrite q v # es) =
     (if q = p then v # digital_writes p es else digital_writes p es)"
| "digital_writes p (e # es) = digital_writes p es"

text \<open>
  The controller in 4-bit mode reads two frames as one byte: the data lines of the first
  are the high nibble, those of the second the low nibble, and bit 2 says whether the
  byte is character data.
\<close>

fun decode_frames :: "byte list \<Rightarrow> (byte \<times> bool) list" where
  "decode_frames (f1 # f2 # fs) =
     (join_nibbles (frame_nibble f1) (frame_nibble f2), bit f1 2) # decode_frames fs"
| "decode_frames fs = []"

text \<open>
  The bytes the controller reads, in 4-bit mode, from the calls made on the way from
  \<open>s\<close> to \<open>s'\<close>; \<open>r\<close> is the content of the shift register before them.
\<close>

definition sent_bytes :: "byte \<Rightarrow> lcd_state \<Rightarrow> lcd_state \<Rightarrow> (byte \<times> bool) list" where
  "sent_bytes r s s' = decode_frames (latched (enable_pin s) r (emitted s s'))"

text \<open>
  In a sequence of shifted bytes, every byte other than zero comes right after a zero
  byte; \<open>prev\<close> is the byte shifted before the sequence.
\<close>

fun zero_preceded :: "byte \<Rightarrow> byte list \<Rightarrow> bool" where
  "zero_preceded prev [] = True"
| "zero_preceded prev (b # bs) = ((b = 0 \<or> prev = 0) \<and> zero_preceded b bs)"

subsection \<open>Sequences of calls\<close>

text \<open>
  The methods a program calls on a constructed driver, and a run of them in order. A run
  stops at the first out-of-bounds read.
\<close>

datatype lcd_call =
  Clear | Home | SetCursor byte byte
  | NoDisplay | Display | NoCursor | Cursor | NoBlink | Blink
  | ScrollDisplayLeft | ScrollDisplayRight
  | ShiftLeft | ShiftRight | ShiftIncrement | ShiftDecrement
  | CreateChar byte "byte list" | Command byte | Write byte

fun call :: "lcd_consts \<Rightarrow> lcd_call \<Rightarrow> lcd_state \<Rightarrow> lcd_error + lcd_state" where
  "call c Clear s = Inr (clear c s)"
| "call c Home s = Inr (home c s)"
| "call c (SetCursor col row) s = setCursor c col row s"
| "call c NoDisplay s = Inr (noDisplay c s)"
| "call c Display s = Inr (display c s)"
| "call c NoCursor s = Inr (noCursor c s)"
| "call c Cursor s = Inr (cursor c s)"
| "call c NoBlink s = Inr (noBlink c s)"
| "call c Blink s = Inr (blink c s)"
| "call c ScrollDisplayLeft s = Inr (scrollDisplayLeft c s)"
| "call c ScrollDisplayRight s = Inr (scrollDisplayRight c s)"
| "call c ShiftLeft s = Inr (shiftLeft c s)"
| "call c ShiftRight s = Inr (shiftRight c s)"
| "call c ShiftIncrement s = Inr (shiftIncrement c s)"
| "call c ShiftDecrement s = Inr (shiftDecrement c s)"
| "call c (CreateChar location charmap) s = createChar c location charmap s"
| "call c (Command v) s = Inr (command v s)"
| "call c (Write v) s = Inr (snd (write_lcd v s))"

fun calls :: "lcd_consts \<Rightarrow> lcd_call list \<Rightarrow> lcd_state \<Rightarrow> lcd_error + lcd_state" where
  "calls c [] s = Inr s"
| "calls c (x # xs) s = (case call c x s of Inl e \<Rightarrow> Inl e | Inr s' \<Rightarrow> calls c xs s')"

subsection \<open>The calls of one transmission, as lists\<close>

text \<open>
  The platform calls of \<^verbatim>\<open>send\<close> and \<^verbatim>\<open>init4bits\<close> depend on the state only through the
  pins and the two-wire flag. These lists name them; \<open>send_calls_eq\<close> and
  \<open>init4bits_calls_eq\<close> below prove that they are what the two functions append.
\<close>

definition clear_calls :: "byte \<Rightarrow> byte \<Rightarrow> byte \<Rightarrow> hw_event list" where
  "clear_calls d k tw = (if tw \<noteq> 0 then [ShiftOut d k 0] else [])"

definition frame_calls :: "byte \<Rightarrow> byte \<Rightarrow> byte \<Rightarrow> byte \<Rightarrow> hw_event list" where
  "frame_calls d k en f =
     [ShiftOut d k f, DigitalWrite en HIGH, DelayMicroseconds 1, DigitalWrite en LOW]"

definition send_calls ::
  "byte \<Rightarrow> byte \<Rightarrow> byte \<Rightarrow> byte \<Rightarrow> byte \<Rightarrow> byte \<Rightarrow> hw_event list" where
  "send_calls d k en tw v m =
     clear_calls d k tw @ DigitalWrite en LOW # frame_calls d k en (send_val1 v m)
     @ clear_calls d k tw @ frame_calls d k en (send_val2 v m) @ [DelayMicroseconds 40]"

definition init4bits_calls ::
  "byte \<Rightarrow> byte \<Rightarrow> byte \<Rightarrow> byte \<Rightarrow> byte \<Rightarrow> hw_event list" where
  "init4bits_calls d k en tw v =
     clear_calls d k tw @ DigitalWrite en LOW # frame_calls d k en (init4bits_val1 v)
     @ [DelayMicroseconds 40]"

subsection \<open>Two-wire mode\<close>

text \<open>
  What holds of a driver \<open>s\<close> in two-wire mode that was constructed from \<open>s0\<close>: the flag
  is set, and in the bytes shifted out since \<open>s0\<close> every byte other than zero comes right
  after a zero byte (the first one too).
\<close>

definition two_wire_inv :: "lcd_state \<Rightarrow> lcd_state \<Rightarrow> bool" where
  "two_wire_inv s0 s \<longleftrightarrow>
     two_wire s \<noteq> 0 \<and> (\<exists>es. hw s = hw s0 @ es \<and> zero_preceded 1 (shifted es))"

text \<open>An object before construction, with nothing logged: a concrete state to start from.\<close>

definition power_on :: lcd_state where
  "power_on = \<lparr>srdata_pin = 0, srclock_pin = 0, enable_pin = 0, two_wire = 0,
     numlines = 0, displayfunction = 0, displaycontrol = 0, displaymode = 0, hw = []\<rparr>"

section \<open>Properties\<close>

subsection \<open>The calls of \<^verbatim>\<open>send\<close> and \<^verbatim>\<open>init4bits\<close>\<close>

lemma send_eq:
  "send v m s = s\<lparr>hw := hw s
     @ (if two_wire s \<noteq> 0 then [ShiftOut (srdata_pin s) (srclock_pin s) 0] else [])
     @ [DigitalWrite (enable_pin s) LOW,
        ShiftOut (srdata_pin s) (srclock_pin s) (send_val1 v m),
        DigitalWrite (enable_pin s) HIGH, DelayMicroseconds 1,
        DigitalWrite (enable_pin s) LOW]
     @ (if two_wire s \<noteq> 0 then [ShiftOut (srdata_pin s) (srclock_pin s) 0] else [])
     @ [ShiftOut (srdata_pin s) (srclock_pin s) (send_val2 v m),
        DigitalWrite (enable_pin s) HIGH, DelayMicroseconds 1,
        DigitalWrite (enable_pin s) LOW, DelayMicroseconds 40]\<rparr>"
  by (simp add: send_def Let_def clear_shiftregister_def shiftOut_def digitalWrite_def
      delayMicroseconds_def)

lemma init4bits_eq:
  "init4bits v s = s\<lparr>hw := hw s
     @ (if two_wire s \<noteq> 0 then [ShiftOut (srdata_pin s) (srclock_pin s) 0] else [])
     @ [DigitalWrite (enable_pin s) LOW,
        ShiftOut (srdata_pin s) (srclock_pin s) (init4bits_val1 v),
        DigitalWrite (enable_pin s) HIGH, DelayMicroseconds 1,
        DigitalWrite (enable_pin s) LOW, DelayMicroseconds 40]\<rparr>"
  by (simp add: init4bits_def Let_def clear_shiftregister_def shiftOut_def digitalWrite_def
      delayMicroseconds_def)

lemma HIGH_not_LOW: "HIGH \<noteq> LOW"
  by (simp add: HIGH_def LOW_def)

lemma latched_send:
  "latched (enable_pin s) r (emitted s (send v m s)) = [send_val1 v m, send_val2 v m]"
  by (simp add: send_eq emitted_def HIGH_not_LOW)

lemma shifted_send:
  "shifted (emitted s (send v m s)) =
     (if two_wire s \<noteq> 0 then [0, send_val1 v m, 0, send_val2 v m]
      else [send_val1 v m, send_val2 v m])"
  by (simp add: send_eq emitted_def)

subsection \<open>The bits of the two frames\<close>

lemma byte_bit_cases:
  fixes n :: nat
  assumes "n < 8"
    and "P 0" and "P 1" and "P 2" and "P 3" and "P 4" and "P 5" and "P 6" and "P 7"
  shows "P n"
proof -
  from \<open>n < 8\<close> have "n \<in> {0, 1, 2, 3, 4, 5, 6, 7}"
    by auto
  with assms(2-) show ?thesis
    by auto
qed

lemma join_send_vals_bits:
  "bit (join_nibbles (frame_nibble (send_val1 v m)) (frame_nibble (send_val2 v m))) 0 = bit v 0"
  "bit (join_nibbles (frame_nibble (send_val1 v m)) (frame_nibble (send_val2 v m))) 1 = bit v 1"
  "bit (join_nibbles (frame_nibble (send_val1 v m)) (frame_nibble (send_val2 v m))) 2 = bit v 2"
  "bit (join_nibbles (frame_nibble (send_val1 v m)) (frame_nibble (send_val2 v m))) 3 = bit v 3"
  "bit (join_nibbles (frame_nibble (send_val1 v m)) (frame_nibble (send_val2 v m))) 4 = bit v 4"
  "bit (join_nibbles (frame_nibble (send_val1 v m)) (frame_nibble (send_val2 v m))) 5 = bit v 5"
  "bit (join_nibbles (frame_nibble (send_val1 v m)) (frame_nibble (send_val2 v m))) 6 = bit v 6"
  "bit (join_nibbles (frame_nibble (send_val1 v m)) (frame_nibble (send_val2 v m))) 7 = bit v 7"
  unfolding join_nibbles_def frame_nibble_def send_val1_def send_val2_def
    SR_RS_BIT_def SR_EN_BIT_def
  by (simp_all add: bit_simps)

lemma join_send_vals:
  "join_nibbles (frame_nibble (send_val1 v m)) (frame_nibble (send_val2 v m)) = v"
proof (rule bit_word_eqI)
  fix n :: nat
  assume "n < LENGTH(8)"
  then have "n < 8" by simp
  then show "bit (join_nibbles (frame_nibble (send_val1 v m)) (frame_nibble (send_val2 v m))) n
        = bit v n"
    by (rule byte_bit_cases) (rule join_send_vals_bits)+
qed

lemma rs_send_val1: "bit (send_val1 v m) 2 = (m \<noteq> 0)"
  unfolding send_val1_def SR_RS_BIT_def SR_EN_BIT_def
  by (simp add: bit_simps)

lemma rs_send_val2: "bit (send_val2 v m) 2 = (m \<noteq> 0)"
  unfolding send_val2_def SR_RS_BIT_def SR_EN_BIT_def
  by (simp add: bit_simps)

text \<open>
  C1. For every byte \<open>v\<close> and every mode, \<^verbatim>\<open>send(v, mode)\<close> strobes exactly two frames
  into the controller, in either wiring; the only other bytes it shifts out are the
  zeros that clear the register in two-wire mode. Bits 6 to 3 of the first frame as
  the high nibble and bits 6 to 3 of the second as the low nibble give back \<open>v\<close>, and
  bit 2 of both frames is set exactly when the mode is not \<^verbatim>\<open>LOW\<close> (clear for a command,
  set for character data).
\<close>

theorem send_frames_reconstruct_value:
  "latched (enable_pin s) r (emitted s (send v mode s)) = [send_val1 v mode, send_val2 v mode]
   \<and> shifted (emitted s (send v mode s)) =
       (if two_wire s \<noteq> 0 then [0, send_val1 v mode, 0, send_val2 v mode]
        else [send_val1 v mode, send_val2 v mode])
   \<and> join_nibbles (frame_nibble (send_val1 v mode)) (frame_nibble (send_val2 v mode)) = v
   \<and> bit (send_val1 v mode) 2 = (mode \<noteq> 0)
   \<and> bit (send_val2 v mode) 2 = (mode \<noteq> 0)"
  using latched_send [of s r v mode] shifted_send [of s v mode] join_send_vals [of v mode]
    rs_send_val1 [of v mode] rs_send_val2 [of v mode]
  by simp

text \<open>
  C6 (what the code does). \<^verbatim>\<open>write(value)\<close> makes one call of \<^verbatim>\<open>send\<close> in data mode, which
  the controller reads as the one character byte \<open>value\<close>, and then returns 0, not 1.
\<close>

theorem write_sends_one_byte_returns_zero:
  "fst (write_lcd v s) = 0
   \<and> snd (write_lcd v s) = send v HIGH s
   \<and> sent_bytes r s (snd (write_lcd v s)) = [(v, True)]"
  using latched_send [of s r v HIGH] join_send_vals [of v HIGH] rs_send_val1 [of v HIGH]
  by (simp add: write_lcd_def sent_bytes_def HIGH_def)

text \<open>
  C10. Both transmission primitives leave the enable line deasserted. The levels that
  \<^verbatim>\<open>send\<close> writes to the enable pin are low, high, low, high, low, and those of
  \<^verbatim>\<open>init4bits\<close> are low, high, low: the last write is \<^verbatim>\<open>LOW\<close>. No later call of the
  same operation touches the pin, also where the enable pin is the data pin that
  \<^verbatim>\<open>shiftOut\<close> drives: whatever its level \<open>l\<close> before, it is \<^verbatim>\<open>LOW\<close> afterwards.
\<close>

theorem enable_left_low:
  "digital_writes (enable_pin s) (emitted s (send v mode s)) = [LOW, HIGH, LOW, HIGH, LOW]
   \<and> pin_level (enable_pin s) l (emitted s (send v mode s)) = LOW
   \<and> digital_writes (enable_pin s) (emitted s (init4bits v s)) = [LOW, HIGH, LOW]
   \<and> pin_level (enable_pin s) l (emitted s (init4bits v s)) = LOW"
  by (simp add: send_eq init4bits_eq emitted_def)

subsection \<open>Fields and log after each operation\<close>

lemma send_calls_eq:
  "send v m s = s\<lparr>hw := hw s
     @ send_calls (srdata_pin s) (srclock_pin s) (enable_pin s) (two_wire s) v m\<rparr>"
  by (simp add: send_eq send_calls_def clear_calls_def frame_calls_def)

lemma init4bits_calls_eq:
  "init4bits v s = s\<lparr>hw := hw s
     @ init4bits_calls (srdata_pin s) (srclock_pin s) (enable_pin s) (two_wire s) v\<rparr>"
  by (simp add: init4bits_eq init4bits_calls_def clear_calls_def frame_calls_def)

lemma send_fields [simp]:
  "srdata_pin (send v m s) = srdata_pin s"
  "srclock_pin (send v m s) = srclock_pin s"
  "enable_pin (send v m s) = enable_pin s"
  "two_wire (send v m s) = two_wire s"
  "numlines (send v m s) = numlines s"
  "displayfunction (send v m s) = displayfunction s"
  "displaycontrol (send v m s) = displaycontrol s"
  "displaymode (send v m s) = displaymode s"
  "hw (send v m s) = hw s
     @ send_calls (srdata_pin s) (srclock_pin s) (enable_pin s) (two_wire s) v m"
  by (simp_all add: send_calls_eq)

lemma init4bits_fields [simp]:
  "srdata_pin (init4bits v s) = srdata_pin s"
  "srclock_pin (init4bits v s) = srclock_pin s"
  "enable_pin (init4bits v s) = enable_pin s"
  "two_wire (init4bits v s) = two_wire s"
  "numlines (init4bits v s) = numlines s"
  "displayfunction (init4bits v s) = displayfunction s"
  "displaycontrol (init4bits v s) = displaycontrol s"
  "displaymode (init4bits v s) = displaymode s"
  "hw (init4bits v s) = hw s
     @ init4bits_calls (srdata_pin s) (srclock_pin s) (enable_pin s) (two_wire s) v"
  by (simp_all add: init4bits_calls_eq)

lemma pinMode_fields [simp]:
  "srdata_pin (pinMode p s) = srdata_pin s"
  "srclock_pin (pinMode p s) = srclock_pin s"
  "enable_pin (pinMode p s) = enable_pin s"
  "two_wire (pinMode p s) = two_wire s"
  "numlines (pinMode p s) = numlines s"
  "displayfunction (pinMode p s) = displayfunction s"
  "displaycontrol (pinMode p s) = displaycontrol s"
  "displaymode (pinMode p s) = displaymode s"
  "hw (pinMode p s) = hw s @ [PinMode p]"
  by (simp_all add: pinMode_def)

lemma delayMicroseconds_fields [simp]:
  "srdata_pin (delayMicroseconds n s) = srdata_pin s"
  "srclock_pin (delayMicroseconds n s) = srclock_pin s"
  "enable_pin (delayMicroseconds n s) = enable_pin s"
  "two_wire (delayMicroseconds n s) = two_wire s"
  "numlines (delayMicroseconds n s) = numlines s"
  "displayfunction (delayMicroseconds n s) = displayfunction s"
  "displaycontrol (delayMicroseconds n s) = displaycontrol s"
  "displaymode (delayMicroseconds n s) = displaymode s"
  "hw (delayMicroseconds n s) = hw s @ [DelayMicroseconds n]"
  by (simp_all add: delayMicroseconds_def)

lemma command_fields [simp]:
  "srdata_pin (command v s) = srdata_pin s"
  "srclock_pin (command v s) = srclock_pin s"
  "enable_pin (command v s) = enable_pin s"
  "two_wire (command v s) = two_wire s"
  "numlines (command v s) = numlines s"
  "displayfunction (command v s) = displayfunction s"
  "displaycontrol (command v s) = displaycontrol s"
  "displaymode (command v s) = displaymode s"
  "hw (command v s) = hw s
     @ send_calls (srdata_pin s) (srclock_pin s) (enable_pin s) (two_wire s) v LOW"
  by (simp_all add: command_def)

lemma clear_fields [simp]:
  "srdata_pin (clear c s) = srdata_pin s"
  "srclock_pin (clear c s) = srclock_pin s"
  "enable_pin (clear c s) = enable_pin s"
  "two_wire (clear c s) = two_wire s"
  "numlines (clear c s) = numlines s"
  "displayfunction (clear c s) = displayfunction s"
  "displaycontrol (clear c s) = displaycontrol s"
  "displaymode (clear c s) = displaymode s"
  "hw (clear c s) = hw s
     @ send_calls (srdata_pin s) (srclock_pin s) (enable_pin s) (two_wire s) (LCD_CLEARDISPLAY c) LOW
     @ [DelayMicroseconds 2000]"
  by (simp_all add: clear_def)

lemma home_fields [simp]:
  "srdata_pin (home c s) = srdata_pin s"
  "srclock_pin (home c s) = srclock_pin s"
  "enable_pin (home c s) = enable_pin s"
  "two_wire (home c s) = two_wire s"
  "numlines (home c s) = numlines s"
  "displayfunction (home c s) = displayfunction s"
  "displaycontrol (home c s) = displaycontrol s"
  "displaymode (home c s) = displaymode s"
  "hw (home c s) = hw s
     @ send_calls (srdata_pin s) (srclock_pin s) (enable_pin s) (two_wire s) (LCD_RETURNHOME c) LOW
     @ [DelayMicroseconds 2000]"
  by (simp_all add: home_def)

lemma display_fields [simp]:
  "srdata_pin (display c s) = srdata_pin s"
  "srclock_pin (display c s) = srclock_pin s"
  "enable_pin (display c s) = enable_pin s"
  "two_wire (display c s) = two_wire s"
  "numlines (display c s) = numlines s"
  "displayfunction (display c s) = displayfunction s"
  "displaycontrol (display c s) = displaycontrol s OR LCD_DISPLAYON c"
  "displaymode (display c s) = displaymode s"
  "hw (display c s) = hw s
     @ send_calls (srdata_pin s) (srclock_pin s) (enable_pin s) (two_wire s)
         (LCD_DISPLAYCONTROL c OR (displaycontrol s OR LCD_DISPLAYON c)) LOW"
  by (simp_all add: display_def)

lemma init_fields:
  "srdata_pin (init c d k e l f s0) = d"
  "srclock_pin (init c d k e l f s0) = k"
  "enable_pin (init c d k e l f s0) = (if e = TWO_WIRE c then d else e)"
  "two_wire (init c d k e l f s0) = (if e = TWO_WIRE c then 1 else 0)"
  "numlines (init c d k e l f s0) = (if l > 1 then LCD_2LINE c else LCD_1LINE c)"
  "displayfunction (init c d k e l f s0) =
     (LCD_4BITMODE c OR (if l > 1 then LCD_2LINE c else LCD_1LINE c))
       OR (if f \<noteq> 0 then LCD_5x10DOTS c else LCD_5x8DOTS c)"
  "displaycontrol (init c d k e l f s0) =
     (LCD_DISPLAYON c OR LCD_CURSOROFF c OR LCD_BLINKOFF c) OR LCD_DISPLAYON c"
  "displaymode (init c d k e l f s0) = LCD_ENTRYLEFT c OR LCD_ENTRYSHIFTDECREMENT c"
  by (simp_all add: init_def Let_def)

subsection \<open>Frames and bytes of the call lists\<close>

lemma latched_send_calls [simp]:
  "latched en r (send_calls d k en tw v m @ es)
     = send_val1 v m # send_val2 v m # latched en (send_val2 v m) es"
  "latched en r (send_calls d k en tw v m) = [send_val1 v m, send_val2 v m]"
  by (simp_all add: send_calls_def clear_calls_def frame_calls_def HIGH_not_LOW)

lemma latched_init4bits_calls [simp]:
  "latched en r (init4bits_calls d k en tw v @ es)
     = init4bits_val1 v # latched en (init4bits_val1 v) es"
  "latched en r (init4bits_calls d k en tw v) = [init4bits_val1 v]"
  by (simp_all add: init4bits_calls_def clear_calls_def frame_calls_def HIGH_not_LOW)

lemma shifted_send_calls [simp]:
  "shifted (send_calls d k en tw v m @ es)
     = (if tw \<noteq> 0 then [0, send_val1 v m, 0, send_val2 v m]
        else [send_val1 v m, send_val2 v m]) @ shifted es"
  "shifted (send_calls d k en tw v m)
     = (if tw \<noteq> 0 then [0, send_val1 v m, 0, send_val2 v m]
        else [send_val1 v m, send_val2 v m])"
  by (simp_all add: send_calls_def clear_calls_def frame_calls_def)

lemma shifted_init4bits_calls [simp]:
  "shifted (init4bits_calls d k en tw v @ es)
     = (if tw \<noteq> 0 then [0, init4bits_val1 v] else [init4bits_val1 v]) @ shifted es"
  "shifted (init4bits_calls d k en tw v)
     = (if tw \<noteq> 0 then [0, init4bits_val1 v] else [init4bits_val1 v])"
  by (simp_all add: init4bits_calls_def clear_calls_def frame_calls_def)

lemma mode_levels [simp]: "(LOW = 0) = True" "(HIGH = 0) = False"
  by (simp_all add: LOW_def HIGH_def)

lemma decode_send_vals [simp]:
  "decode_frames (send_val1 v m # send_val2 v m # fs) = (v, m \<noteq> 0) # decode_frames fs"
  by (simp add: join_send_vals rs_send_val1)

lemmas [simp] = join_send_vals rs_send_val1 rs_send_val2

lemma init_latched:
  "latched (enable_pin (init c d k e l f s0)) r (emitted s0 (init c d k e l f s0)) =
     [init4bits_val1 (LCD_FUNCTIONSET c OR LCD_8BITMODE c),
      init4bits_val1 (LCD_FUNCTIONSET c OR LCD_8BITMODE c),
      init4bits_val1 (LCD_FUNCTIONSET c OR LCD_8BITMODE c),
      init4bits_val1 (LCD_FUNCTIONSET c OR LCD_4BITMODE c),
      send_val1 (LCD_FUNCTIONSET c OR displayfunction (init c d k e l f s0)) LOW,
      send_val2 (LCD_FUNCTIONSET c OR displayfunction (init c d k e l f s0)) LOW,
      send_val1 (LCD_DISPLAYCONTROL c OR displaycontrol (init c d k e l f s0)) LOW,
      send_val2 (LCD_DISPLAYCONTROL c OR displaycontrol (init c d k e l f s0)) LOW,
      send_val1 (LCD_CLEARDISPLAY c) LOW,
      send_val2 (LCD_CLEARDISPLAY c) LOW,
      send_val1 (LCD_ENTRYMODESET c OR displaymode (init c d k e l f s0)) LOW,
      send_val2 (LCD_ENTRYMODESET c OR displaymode (init c d k e l f s0)) LOW,
      send_val1 (LCD_RETURNHOME c) LOW,
      send_val2 (LCD_RETURNHOME c) LOW]"
  by (simp add: emitted_def init_fields) (simp add: init_def Let_def)

text \<open>
  C4. After \<^verbatim>\<open>init\<close> with \<open>lines = 2\<close> and \<open>font = 0\<close> the cached function-set mask is
  the 4-bit-mode flag or'ed with the 2-line flag and the 5x8-font flag, whatever the pins
  and the values of the header's constants. The controller is strobed four single frames
  (the function-set nibbles of the bootstrap, three for 8-bit mode and one for 4-bit mode)
  and then reads five command bytes: the function-set opcode or'ed with exactly that
  mask, then display control, clear, entry mode and home. The function-set command is
  the last function set that \<^verbatim>\<open>init\<close> transmits.
\<close>

theorem init_two_lines_function_set:
  "displayfunction (init c d k e 2 0 s0) = LCD_4BITMODE c OR LCD_2LINE c OR LCD_5x8DOTS c
   \<and> take 4 (latched (enable_pin (init c d k e 2 0 s0)) r (emitted s0 (init c d k e 2 0 s0)))
       = [init4bits_val1 (LCD_FUNCTIONSET c OR LCD_8BITMODE c),
          init4bits_val1 (LCD_FUNCTIONSET c OR LCD_8BITMODE c),
          init4bits_val1 (LCD_FUNCTIONSET c OR LCD_8BITMODE c),
          init4bits_val1 (LCD_FUNCTIONSET c OR LCD_4BITMODE c)]
   \<and> decode_frames
         (drop 4 (latched (enable_pin (init c d k e 2 0 s0)) r (emitted s0 (init c d k e 2 0 s0))))
       = [(LCD_FUNCTIONSET c OR (LCD_4BITMODE c OR LCD_2LINE c OR LCD_5x8DOTS c), False),
          (LCD_DISPLAYCONTROL c OR displaycontrol (init c d k e 2 0 s0), False),
          (LCD_CLEARDISPLAY c, False),
          (LCD_ENTRYMODESET c OR displaymode (init c d k e 2 0 s0), False),
          (LCD_RETURNHOME c, False)]"
  by (simp add: init_latched) (simp add: init_fields or.assoc)

text \<open>
  C8. From any state, the second of two calls of \<^verbatim>\<open>display()\<close> in a row makes the same
  platform calls as the first, so the controller reads the same display-control command
  byte twice, and the cached display-control mask after the second call is the one after
  the first.
\<close>

theorem display_twice_idempotent:
  "emitted (display c s) (display c (display c s)) = emitted s (display c s)
   \<and> sent_bytes r (display c s) (display c (display c s)) = sent_bytes r s (display c s)
   \<and> sent_bytes r s (display c s) = [(LCD_DISPLAYCONTROL c OR displaycontrol (display c s), False)]
   \<and> displaycontrol (display c (display c s)) = displaycontrol (display c s)"
  by (simp add: sent_bytes_def emitted_def or.assoc)


subsection \<open>\<^verbatim>\<open>createChar\<close>\<close>



subsection \<open>\<^verbatim>\<open>setCursor\<close>\<close>

lemma unat_byte_minus_1: "unat (- 1 :: byte) = 255"
  by (simp add: unsigned_minus_1_eq_mask mask_eq_exp_minus_1)

lemma byte_less_255: "n \<noteq> 255 \<Longrightarrow> (n :: byte) < 255"
proof -
  assume "n \<noteq> 255"
  then have "unat n \<noteq> 255"
    by (simp add: word_unat_eq_iff)
  moreover have "unat n < 256"
    using unsigned_less [of n, where 'a = nat] by simp
  ultimately show ?thesis
    by (simp add: word_less_nat_alt)
qed

lemma byte_pred_not_1: "n \<noteq> 2 \<Longrightarrow> (n :: byte) - 1 \<noteq> 1"
  by (metis add.commute diff_add_cancel one_add_one)

lemma numlines_hd44780:
  "numlines (init hd44780 d k e 2 0 s0) = 8"
  "numlines (init hd44780 d k e 1 0 s0) = 0"
  by (simp_all add: init_fields hd44780_def)

text \<open>
  The clamp of \<^verbatim>\<open>setCursor\<close> compares the row with \<^verbatim>\<open>_numlines\<close>, which \<^verbatim>\<open>init\<close> sets to
  the flag \<^verbatim>\<open>LCD_2LINE\<close> or \<^verbatim>\<open>LCD_1LINE\<close>, not to a number of lines. The subscript is
  within the four entries of the table for every row exactly when that flag is 1, 2 or 3.
\<close>

lemma setCursor_row_in_bounds_iff:
  "(\<forall>row. unat (setCursor_row row s) < length row_offsets)
     \<longleftrightarrow> numlines s = 1 \<or> numlines s = 2 \<or> numlines s = 3"
proof
  assume all: "\<forall>row. unat (setCursor_row row s) < length row_offsets"
  from all [rule_format, of "numlines s"] have "unat (numlines s) < 4"
    by (simp add: setCursor_row_def row_offsets_def)
  then have "unat (numlines s) = 0 \<or> unat (numlines s) = 1 \<or> unat (numlines s) = 2
      \<or> unat (numlines s) = 3"
    by arith
  then have small: "numlines s = 0 \<or> numlines s = 1 \<or> numlines s = 2 \<or> numlines s = 3"
    by (simp add: word_unat_eq_iff)
  have "numlines s \<noteq> 0"
  proof
    assume "numlines s = 0"
    with all [rule_format, of 1] show False
      by (simp add: setCursor_row_def row_offsets_def unat_byte_minus_1)
  qed
  with small show "numlines s = 1 \<or> numlines s = 2 \<or> numlines s = 3"
    by simp
next
  assume n: "numlines s = 1 \<or> numlines s = 2 \<or> numlines s = 3"
  show "\<forall>row. unat (setCursor_row row s) < length row_offsets"
  proof
    fix row
    show "unat (setCursor_row row s) < length row_offsets"
    proof (cases "row > numlines s")
      case True
      with n show ?thesis
        by (auto simp add: setCursor_row_def row_offsets_def)
    next
      case False
      then have "unat row \<le> unat (numlines s)"
        by (simp add: word_le_nat_alt not_less)
      moreover from n have "unat (numlines s) \<le> 3"
        by auto
      ultimately show ?thesis
        using False by (simp add: setCursor_row_def row_offsets_def)
    qed
  qed
qed

text \<open>
  Whatever the header's value of \<^verbatim>\<open>LCD_2LINE\<close>, on a two-line display some row beyond the
  last one is not clamped to row 1.
\<close>

lemma setCursor_row_clamp_fails:
  "\<exists>row. 1 < row \<and> setCursor_row row (init c d k e 2 0 s0) \<noteq> 1"
proof -
  define n where "n = LCD_2LINE c"
  have nl: "numlines (init c d k e 2 0 s0) = n"
    by (simp add: init_fields n_def)
  consider "n = 2" | "n = 255" | "n \<noteq> 2" "n \<noteq> 255" by blast
  then show ?thesis
  proof cases
    case 1
    then have "(1::byte) < 2 \<and> setCursor_row 2 (init c d k e 2 0 s0) \<noteq> 1"
      by (simp add: setCursor_row_def nl)
    then show ?thesis by blast
  next
    case 2
    then have "(1::byte) < 2 \<and> setCursor_row 2 (init c d k e 2 0 s0) \<noteq> 1"
      by (simp add: setCursor_row_def nl)
    then show ?thesis by blast
  next
    case 3
    have "n < 255" using 3(2) by (rule byte_less_255)
    moreover have "n - 1 \<noteq> 1" using 3(1) by (rule byte_pred_not_1)
    ultimately have "(1::byte) < 255 \<and> setCursor_row 255 (init c d k e 2 0 s0) \<noteq> 1"
      by (simp add: setCursor_row_def nl)
    then show ?thesis by blast
  qed
qed

text \<open>
  C2 (what the code does). With the controller's flag values a two-line display has
  \<^verbatim>\<open>_numlines = 0x08\<close>, so \<^verbatim>\<open>setCursor(0, 5)\<close> is not clamped: it reads
  \<^verbatim>\<open>row_offsets[5]\<close>, beyond the four entries of the table, while \<^verbatim>\<open>setCursor(0, 1)\<close>
  sends the set-DDRAM-address command for offset \<open>0x40\<close>.
\<close>

theorem setCursor_two_lines_row_5:
  "setCursor hd44780 0 5 (init hd44780 d k e 2 0 s0) = Inl (OutOfBounds 5)
   \<and> (\<exists>s'. setCursor hd44780 0 1 (init hd44780 d k e 2 0 s0) = Inr s'
          \<and> sent_bytes r (init hd44780 d k e 2 0 s0) s' = [(0xC0, False)])"
  by (simp add: setCursor_def setCursor_row_def numlines_hd44780 row_offsets_def
      sent_bytes_def emitted_def Let_def) (simp add: hd44780_def)

text \<open>
  C3 (what the code does). The subscript of \<^verbatim>\<open>row_offsets\<close> leaves the table: on a one-line
  display (\<^verbatim>\<open>_numlines = 0\<close>) row 1 is replaced by \<open>0 - 1 = 255\<close>; on a two-line display
  (\<^verbatim>\<open>_numlines = 8\<close>) row 4 is kept, and row 9 is replaced by 7.
\<close>

theorem setCursor_reads_out_of_bounds:
  "setCursor hd44780 col 1 (init hd44780 d k e 1 0 s0) = Inl (OutOfBounds 255)
   \<and> setCursor hd44780 col 4 (init hd44780 d k e 2 0 s0) = Inl (OutOfBounds 4)
   \<and> setCursor hd44780 col 9 (init hd44780 d k e 2 0 s0) = Inl (OutOfBounds 7)"
  by (simp add: setCursor_def setCursor_row_def numlines_hd44780 row_offsets_def Let_def
      unat_byte_minus_1)

subsection \<open>Two-wire mode: a zero before every frame\<close>

lemma shifted_append: "shifted (xs @ ys) = shifted xs @ shifted ys"
proof (induction xs)
  case Nil
  show ?case by simp
next
  case (Cons e xs)
  then show ?case by (cases e) simp_all
qed

lemma zero_preceded_append_zero:
  "zero_preceded p (xs @ 0 # ys) = (zero_preceded p xs \<and> zero_preceded 0 ys)"
  by (induction xs arbitrary: p) auto

lemma zero_preceded_append_nil:
  "zero_preceded p (xs @ []) = zero_preceded p xs"
  by simp

lemma two_wire_inv_emitted:
  assumes "two_wire_inv s0 s"
  shows "zero_preceded 1 (shifted (emitted s0 s))" and "two_wire s \<noteq> 0"
  using assms by (auto simp add: two_wire_inv_def emitted_def)

lemma two_wire_inv_send:
  assumes "two_wire_inv s0 s"
  shows "two_wire_inv s0 (send v m s)"
proof -
  from assms obtain es where tw: "two_wire s \<noteq> 0" and es: "hw s = hw s0 @ es"
    and zp: "zero_preceded 1 (shifted es)"
    by (auto simp add: two_wire_inv_def)
  let ?cs = "send_calls (srdata_pin s) (srclock_pin s) (enable_pin s) (two_wire s) v m"
  have "hw (send v m s) = hw s0 @ (es @ ?cs)"
    by (simp add: es)
  moreover have "zero_preceded 1 (shifted (es @ ?cs))"
    using tw zp by (simp add: shifted_append zero_preceded_append_zero)
  moreover have "two_wire (send v m s) \<noteq> 0"
    using tw by simp
  ultimately show ?thesis
    unfolding two_wire_inv_def by blast
qed

lemma two_wire_inv_delayMicroseconds:
  assumes "two_wire_inv s0 s"
  shows "two_wire_inv s0 (delayMicroseconds n s)"
proof -
  from assms obtain es where tw: "two_wire s \<noteq> 0" and es: "hw s = hw s0 @ es"
    and zp: "zero_preceded 1 (shifted es)"
    by (auto simp add: two_wire_inv_def)
  have "hw (delayMicroseconds n s) = hw s0 @ (es @ [DelayMicroseconds n])"
    by (simp add: es)
  moreover have "zero_preceded 1 (shifted (es @ [DelayMicroseconds n]))"
    using zp by (simp add: shifted_append)
  moreover have "two_wire (delayMicroseconds n s) \<noteq> 0"
    using tw by simp
  ultimately show ?thesis
    unfolding two_wire_inv_def by blast
qed

lemma two_wire_inv_update [simp]:
  "two_wire_inv s0 (s\<lparr>displaycontrol := x\<rparr>) = two_wire_inv s0 s"
  "two_wire_inv s0 (s\<lparr>displaymode := x\<rparr>) = two_wire_inv s0 s"
  by (simp_all add: two_wire_inv_def)

lemma two_wire_inv_command:
  "two_wire_inv s0 s \<Longrightarrow> two_wire_inv s0 (command v s)"
  by (simp add: command_def two_wire_inv_send)

lemma two_wire_inv_createChar_loop:
  "two_wire_inv s0 s \<Longrightarrow> createChar_loop i g s = Inr s' \<Longrightarrow> two_wire_inv s0 s'"
proof (induction i g s rule: createChar_loop.induct)
  case (1 i charmap s)
  show ?case
  proof (cases "i < 8")
    case True
    with "1.prems"(2) have len: "i < length charmap"
      by (simp add: createChar_loop.simps [of i] split: if_splits)
    with True "1.prems"(2)
    have "createChar_loop (i + 1) charmap (snd (write_lcd (charmap ! i) s)) = Inr s'"
      by (simp add: createChar_loop.simps [of i])
    moreover have "two_wire_inv s0 (snd (write_lcd (charmap ! i) s))"
      using "1.prems"(1) by (simp add: write_lcd_def two_wire_inv_send)
    ultimately show ?thesis
      using "1.IH" True len by blast
  next
    case False
    with "1.prems" show ?thesis
      by (simp add: createChar_loop.simps [of i])
  qed
qed

lemma two_wire_inv_call:
  assumes "two_wire_inv s0 s" and "call c x s = Inr s'"
  shows "two_wire_inv s0 s'"
proof (cases x)
  case (SetCursor col row)
  with assms show ?thesis
    by (auto simp add: setCursor_def Let_def two_wire_inv_command split: if_splits)
next
  case (CreateChar location charmap)
  with assms show ?thesis
    by (auto simp add: createChar_def Let_def split: sum.splits
        intro!: two_wire_inv_command
        intro: two_wire_inv_createChar_loop [OF two_wire_inv_command])
qed (use assms in \<open>auto simp add: clear_def home_def noDisplay_def display_def noCursor_def
      cursor_def noBlink_def blink_def scrollDisplayLeft_def scrollDisplayRight_def
      shiftLeft_def shiftRight_def shiftIncrement_def shiftDecrement_def write_lcd_def
      Let_def
      intro!: two_wire_inv_command two_wire_inv_send two_wire_inv_delayMicroseconds\<close>)

lemma two_wire_inv_calls:
  "two_wire_inv s0 s \<Longrightarrow> calls c xs s = Inr s' \<Longrightarrow> two_wire_inv s0 s'"
proof (induction xs arbitrary: s)
  case Nil
  then show ?case by simp
next
  case (Cons x xs)
  then show ?case
    by (auto split: sum.splits dest: two_wire_inv_call)
qed

lemma init_extends: "\<exists>es. hw (init c d k e l f s0) = hw s0 @ es"
  by (simp add: init_def Let_def)

lemma init_shifted_two_wire:
  "shifted (emitted s0 (init c d k (TWO_WIRE c) l f s0)) =
     [0, init4bits_val1 (LCD_FUNCTIONSET c OR LCD_8BITMODE c),
      0, init4bits_val1 (LCD_FUNCTIONSET c OR LCD_8BITMODE c),
      0, init4bits_val1 (LCD_FUNCTIONSET c OR LCD_8BITMODE c),
      0, init4bits_val1 (LCD_FUNCTIONSET c OR LCD_4BITMODE c),
      0, send_val1 (LCD_FUNCTIONSET c
           OR displayfunction (init c d k (TWO_WIRE c) l f s0)) LOW,
      0, send_val2 (LCD_FUNCTIONSET c
           OR displayfunction (init c d k (TWO_WIRE c) l f s0)) LOW,
      0, send_val1 (LCD_DISPLAYCONTROL c
           OR displaycontrol (init c d k (TWO_WIRE c) l f s0)) LOW,
      0, send_val2 (LCD_DISPLAYCONTROL c
           OR displaycontrol (init c d k (TWO_WIRE c) l f s0)) LOW,
      0, send_val1 (LCD_CLEARDISPLAY c) LOW,
      0, send_val2 (LCD_CLEARDISPLAY c) LOW,
      0, send_val1 (LCD_ENTRYMODESET c
           OR displaymode (init c d k (TWO_WIRE c) l f s0)) LOW,
      0, send_val2 (LCD_ENTRYMODESET c
           OR displaymode (init c d k (TWO_WIRE c) l f s0)) LOW,
      0, send_val1 (LCD_RETURNHOME c) LOW,
      0, send_val2 (LCD_RETURNHOME c) LOW]"
  by (simp add: emitted_def init_fields) (simp add: init_def Let_def)

lemma two_wire_inv_init: "two_wire_inv s0 (init c d k (TWO_WIRE c) l f s0)"
proof -
  obtain es where es: "hw (init c d k (TWO_WIRE c) l f s0) = hw s0 @ es"
    using init_extends by blast
  then have "emitted s0 (init c d k (TWO_WIRE c) l f s0) = es"
    by (simp add: emitted_def)
  with init_shifted_two_wire [of s0 c d k l f] have "zero_preceded 1 (shifted es)"
    by simp
  with es show ?thesis
    by (auto simp add: two_wire_inv_def init_fields)
qed

lemma frame_bit_7:
  "bit (send_val1 v m) 7" "bit (send_val2 v m) 7" "bit (init4bits_val1 v) 7"
  unfolding send_val1_def send_val2_def init4bits_val1_def SR_RS_BIT_def SR_EN_BIT_def
  by (simp_all add: bit_simps)

lemma frame_not_zero:
  "send_val1 v m \<noteq> 0" "send_val2 v m \<noteq> 0" "init4bits_val1 v \<noteq> 0"
  using frame_bit_7 (1,2) [of v m] frame_bit_7 (3) [of v] by auto

text \<open>
  C7. A driver constructed with the two-wire sentinel as its enable pin, after any run of
  its methods: in the whole sequence of bytes shifted out since construction, every byte
  other than zero comes right after a zero byte. The flag stays set, so each further
  \<^verbatim>\<open>send\<close> shifts out zero, upper frame, zero, lower frame, and each \<^verbatim>\<open>init4bits\<close> zero and
  its frame; the frames themselves are never zero (bit 7 is set).
\<close>

theorem two_wire_zero_before_every_frame:
  assumes "calls c xs (init c d k (TWO_WIRE c) l f s0) = Inr s"
  shows "zero_preceded 1 (shifted (emitted s0 s))
         \<and> shifted (emitted s (send v m s)) = [0, send_val1 v m, 0, send_val2 v m]
         \<and> shifted (emitted s (init4bits v s)) = [0, init4bits_val1 v]
         \<and> send_val1 v m \<noteq> 0 \<and> send_val2 v m \<noteq> 0 \<and> init4bits_val1 v \<noteq> 0"
proof -
  have inv: "two_wire_inv s0 s"
    using two_wire_inv_init assms by (rule two_wire_inv_calls)
  then have "zero_preceded 1 (shifted (emitted s0 s))" and "two_wire s \<noteq> 0"
    by (rule two_wire_inv_emitted)+
  then show ?thesis
    by (simp add: emitted_def frame_not_zero)
qed

theorem two_wire_zero_before_every_frame_witness:
  "calls hd44780 [Clear, Write 0x41] (init hd44780 2 3 (TWO_WIRE hd44780) 2 0 power_on)
     = Inr (snd (write_lcd 0x41 (clear hd44780 (init hd44780 2 3 (TWO_WIRE hd44780) 2 0 power_on))))
   \<and> zero_preceded 1 (shifted (emitted power_on
        (snd (write_lcd 0x41 (clear hd44780 (init hd44780 2 3 (TWO_WIRE hd44780) 2 0 power_on))))))"
  using two_wire_zero_before_every_frame [of hd44780 "[Clear, Write 0x41]" 2 3 2 0 power_on
      "snd (write_lcd 0x41 (clear hd44780 (init hd44780 2 3 (TWO_WIRE hd44780) 2 0 power_on)))"]
  by simp

end
